theory Spec2Isabelle
  imports Main
begin

section \<open>Python library behaviour the plugin relies on\<close>

subsection \<open>Backtracking regular-expression search\<close>

text \<open>
  \<^verbatim>\<open>_install\<close> extracts the package name with
  \<^verbatim>\<open>re.search(r"^(?:.+/)?(.+?)(?: .+)?$", pkg)\<close>. The pattern is kept as data and run by a
  small backtracking matcher for the constructs it uses. A matcher state is the text that is
  still unread together with the groups captured so far; \<open>matches\<close> returns every way a
  pattern can match from a state, in the order in which a backtracking engine tries them, so
  the head of the list is the match that Python reports.

  \<^item> \<^verbatim>\<open>.\<close> without DOTALL matches every character but the newline;
  \<^item> \<^verbatim>\<open>^\<close> without MULTILINE matches at the start of the string only;
  \<^item> \<^verbatim>\<open>$\<close> without MULTILINE matches at the end of the string and just before a newline that
    ends the string;
  \<^item> a greedy \<^verbatim>\<open>+\<close> tries the longest run first, a lazy \<^verbatim>\<open>+?\<close> the shortest;
  \<^item> a greedy \<^verbatim>\<open>?\<close> tries its body first and the empty match last.
\<close>

datatype cclass = AnyChar | Lit char

fun in_class :: "cclass \<Rightarrow> char \<Rightarrow> bool" where
  "in_class AnyChar c = (c \<noteq> CHR 0x0A)"
| "in_class (Lit d) c = (c = d)"

datatype regex = BOL | EOL | One cclass | PlusGreedy cclass | PlusLazy cclass
  | Cat regex regex | OptGreedy regex | Group nat regex

type_synonym captures = "nat \<rightharpoonup> string"
type_synonym mstate = "string \<times> captures"

text \<open>The texts left unread after one, two, three, ... characters of the class.\<close>

fun plus_tails :: "cclass \<Rightarrow> string \<Rightarrow> string list" where
  "plus_tails cc [] = []"
| "plus_tails cc (c # r) = (if in_class cc c then r # plus_tails cc r else [])"

fun matches :: "string \<Rightarrow> regex \<Rightarrow> mstate \<Rightarrow> mstate list" where
  "matches s BOL (rest, caps) = (if length rest = length s then [(rest, caps)] else [])"
| "matches s EOL (rest, caps) =
     (if rest = [] \<or> rest = [CHR 0x0A] then [(rest, caps)] else [])"
| "matches s (One cc) (rest, caps) =
     (case rest of [] \<Rightarrow> [] | c # r \<Rightarrow> if in_class cc c then [(r, caps)] else [])"
| "matches s (PlusGreedy cc) (rest, caps) = map (\<lambda>r. (r, caps)) (rev (plus_tails cc rest))"
| "matches s (PlusLazy cc) (rest, caps) = map (\<lambda>r. (r, caps)) (plus_tails cc rest)"
| "matches s (Cat r1 r2) st = concat (map (matches s r2) (matches s r1 st))"
| "matches s (OptGreedy r) st = matches s r st @ [st]"
| "matches s (Group n r) (rest, caps) =
     map (\<lambda>(rest', caps'). (rest', caps'(n \<mapsto> take (length rest - length rest') rest)))
       (matches s r (rest, caps))"

text \<open>
  \<^verbatim>\<open>re.search\<close> tries the start positions from left to right and returns the first match
  found, or \<^verbatim>\<open>None\<close>. The result is the table of captured groups.
\<close>

definition re_search :: "regex \<Rightarrow> string \<Rightarrow> captures option" where
  "re_search r s =
     (case concat (map (\<lambda>i. matches s r (drop i s, Map.empty)) [0..<Suc (length s)]) of
        [] \<Rightarrow> None
      | (rest, caps) # _ \<Rightarrow> Some caps)"

text \<open>The pattern of \<^verbatim>\<open>_install\<close>: \<^verbatim>\<open>^(?:.+/)?(.+?)(?: .+)?$\<close>.\<close>

definition name_re :: regex where
  "name_re =
     Cat BOL
       (Cat (OptGreedy (Cat (PlusGreedy AnyChar) (One (Lit CHR ''/''))))
         (Cat (Group 1 (PlusLazy AnyChar))
           (Cat (OptGreedy (Cat (One (Lit CHR '' '')) (PlusGreedy AnyChar))) EOL)))"

subsection \<open>Template formatting\<close>

text \<open>
  \<^verbatim>\<open>template.format(key=value)\<close> for templates made of literal text, the escapes
  \<^verbatim>\<open>{{\<close> and \<^verbatim>\<open>}}\<close>, and replacement fields \<^verbatim>\<open>{key}\<close>. The result is \<open>None\<close> where Python
  raises (a single brace, a field naming another key) and for the field syntax this fragment
  leaves out (conversions, format specifications, attribute and index access); every
  template of the plugin is inside the fragment.
\<close>

primrec split_field :: "string \<Rightarrow> (string \<times> string) option" where
  "split_field [] = None"
| "split_field (c # cs) =
     (if c = CHR ''}'' then Some ([], cs)
      else map_option (\<lambda>(name, r). (c # name, r)) (split_field cs))"

lemma split_field_shorter: "split_field cs = Some (name, r) \<Longrightarrow> length r < length cs"
  by (induction cs arbitrary: name r) (auto split: if_splits)

function py_format :: "string \<Rightarrow> string \<Rightarrow> string \<Rightarrow> string option" where
  "py_format [] k v = Some []"
| "py_format (c # cs) k v =
     (if c = CHR ''{'' then
        (case cs of
           [] \<Rightarrow> None
         | d # ds \<Rightarrow>
             if d = CHR ''{'' then map_option ((#) c) (py_format ds k v)
             else (case split_field cs of
                     None \<Rightarrow> None
                   | Some (name, r) \<Rightarrow>
                       if name = k then map_option ((@) v) (py_format r k v) else None))
      else if c = CHR ''}'' then
        (case cs of
           [] \<Rightarrow> None
         | d # ds \<Rightarrow> if d = CHR ''}'' then map_option ((#) c) (py_format ds k v) else None)
      else map_option ((#) c) (py_format cs k v))"
  by pat_completeness auto
termination
  by (relation "measure (\<lambda>(t, k, v). length t)")
    (auto simp del: split_field.simps dest!: split_field_shorter)

text \<open>
  How \<^verbatim>\<open>format\<close> renders group 1 of the match object: the captured text, or the word
  \<^verbatim>\<open>None\<close> for a group that took no part in the match.
\<close>

definition group_str :: "string option \<Rightarrow> string" where
  "group_str g = (case g of None \<Rightarrow> ''None'' | Some t \<Rightarrow> t)"

section \<open>The environment: child processes and the log\<close>

text \<open>
  The plugin acts on the outside world in two ways only: it spawns shell commands with
  \<^verbatim>\<open>subprocess.call\<close> and it writes log lines. The world is the chronological trace of these
  events. What a child process returns is not decided by the plugin: it is given by a
  function of the processes spawned so far and of the process spawned now, and every
  theorem holds for every such function.

  The arguments for the three standard streams are recorded as the plugin passes them:
  the Python value \<^verbatim>\<open>True\<close>, or the file object opened on \<^verbatim>\<open>os.devnull\<close>.
\<close>

datatype stream_arg = PyTrue | DevNullFile

record spawn =
  cmd :: string
  cwd :: string
  stdin_arg :: stream_arg
  stdout_arg :: stream_arg
  stderr_arg :: stream_arg

datatype level = Debug | Info | Warning | Error

datatype event = Spawned spawn | Logged level string

type_synonym world = "event list"
type_synonym shell = "spawn list \<Rightarrow> spawn \<Rightarrow> int"

fun spawns :: "world \<Rightarrow> spawn list" where
  "spawns [] = []"
| "spawns (Spawned p # w) = p # spawns w"
| "spawns (Logged l m # w) = spawns w"

definition subprocess_call :: "shell \<Rightarrow> spawn \<Rightarrow> world \<Rightarrow> int \<times> world" where
  "subprocess_call sh p w = (sh (spawns w) p, w @ [Spawned p])"

definition log_msg :: "level \<Rightarrow> string \<Rightarrow> world \<Rightarrow> world" where
  "log_msg l m w = w @ [Logged l m]"

text \<open>
  What \<^verbatim>\<open>subprocess\<close> connects a stream of the child to (CPython, \<^verbatim>\<open>Popen._get_handles\<close>):
  an argument that is an \<^verbatim>\<open>int\<close> is taken as a file descriptor of the parent, and \<^verbatim>\<open>True\<close>
  is the \<^verbatim>\<open>int\<close> 1; a file object stands for its own descriptor, here the null device.
\<close>

datatype child_stream = ParentFd nat | NullDevice

fun popen_stream :: "stream_arg \<Rightarrow> child_stream" where
  "popen_stream PyTrue = ParentFd 1"
| "popen_stream DevNullFile = NullDevice"

section \<open>The plugin\<close>

text \<open>
  The options of a directive, as \<^verbatim>\<open>handle\<close> hands them to a handler: the built-in defaults
  of every directive have the three keys, so the merged mapping always has them, and the
  handlers only test the values for truth.
\<close>

record options =
  stdin :: bool
  stdout :: bool
  stderr :: bool

datatype error = FormatError

definition popen_args :: "string \<Rightarrow> string \<Rightarrow> options \<Rightarrow> spawn" where
  "popen_args base command defaults =
     \<lparr>cmd = command, cwd = base,
      stdin_arg = (if stdin defaults then PyTrue else DevNullFile),
      stdout_arg = (if stdout defaults then PyTrue else DevNullFile),
      stderr_arg = (if stderr defaults then PyTrue else DevNullFile)\<rparr>"

definition invoke_shell_command ::
  "shell \<Rightarrow> string \<Rightarrow> string \<Rightarrow> options \<Rightarrow> world \<Rightarrow> int \<times> world" where
  "invoke_shell_command sh base command defaults w =
     subprocess_call sh (popen_args base command defaults) w"

text \<open>
  Lines 135 to 141 of \<^verbatim>\<open>_install\<close>: the search with the pattern, and group 1 of the match
  as the package name.
\<close>

definition package_name :: "string \<Rightarrow> string option" where
  "package_name pkg =
     (case re_search name_re pkg of
        None \<Rightarrow> None
      | Some pkg_parse \<Rightarrow> Some (group_str (pkg_parse 1)))"

text \<open>The arguments of the check: all three streams are the file opened on the null device.\<close>

definition check_args :: "string \<Rightarrow> string \<Rightarrow> spawn" where
  "check_args base command =
     \<lparr>cmd = command, cwd = base, stdin_arg = DevNullFile, stdout_arg = DevNullFile,
      stderr_arg = DevNullFile\<rparr>"

definition install ::
  "shell \<Rightarrow> string \<Rightarrow> string \<Rightarrow> string \<Rightarrow> string \<Rightarrow> options \<Rightarrow> world
     \<Rightarrow> (error + bool) \<times> world" where
  "install sh base install_format check_installed_format pkg defaults w =
     (if pkg = [] then
        (Inr False, log_msg Error ''Cannot process blank package name'' w)
      else
        (case package_name pkg of
           None \<Rightarrow>
             (Inr False,
              log_msg Error (''Package name '' @ pkg @ '' doesn't work for some reason'') w)
         | Some pkg_name \<Rightarrow>
             (case py_format check_installed_format ''pkg_name'' pkg_name of
                None \<Rightarrow> (Inl FormatError, w)
              | Some check_cmd \<Rightarrow>
                  (case subprocess_call sh (check_args base check_cmd) w of
                     (isInstalled, w1) \<Rightarrow>
                       if isInstalled = 0 then
                         (Inr True, log_msg Debug (pkg @ '' already installed'') w1)
                       else
                         (let w2 = log_msg Info (''Installing '' @ pkg) w1 in
                          case py_format install_format ''pkg'' pkg of
                            None \<Rightarrow> (Inl FormatError, w2)
                          | Some install_cmd \<Rightarrow>
                              (case invoke_shell_command sh base install_cmd defaults w2 of
                                 (result, w3) \<Rightarrow>
                                   (Inr (0 = result),
                                    if 0 \<noteq> result
                                    then log_msg Warning ''Failed to install [{pkg}]'' w3
                                    else w3)))))))"

text \<open>
  \<^verbatim>\<open>_brew\<close> and \<^verbatim>\<open>_cask\<close> run the same loop, with their own two templates and their own
  closing line. An exception of \<^verbatim>\<open>_install\<close> leaves the loop.
\<close>

fun install_loop ::
  "shell \<Rightarrow> string \<Rightarrow> string \<Rightarrow> string \<Rightarrow> string list \<Rightarrow> options \<Rightarrow> bool \<Rightarrow> world
     \<Rightarrow> (error + bool) \<times> world" where
  "install_loop sh base inst chk [] defaults result w = (Inr result, w)"
| "install_loop sh base inst chk (pkg # packages) defaults result w =
     (case install sh base inst chk pkg defaults w of
        (Inl e, w') \<Rightarrow> (Inl e, w')
      | (Inr run, w') \<Rightarrow>
          if \<not> run then
            install_loop sh base inst chk packages defaults False
              (log_msg Error ''Some packages were not installed'' w')
          else install_loop sh base inst chk packages defaults result w')"

definition brew_install_format :: string where
  "brew_install_format = ''/opt/homebrew/bin/brew install {pkg}''"

definition brew_check_format :: string where
  "brew_check_format =
     ''test -d /opt/homebrew/Cellar/{pkg_name} ''
       @ ''|| /opt/homebrew/bin/brew ls --versions {pkg_name}''"

definition brew ::
  "shell \<Rightarrow> string \<Rightarrow> string list \<Rightarrow> options \<Rightarrow> world \<Rightarrow> (error + bool) \<times> world" where
  "brew sh base packages defaults w =
     (case install_loop sh base brew_install_format brew_check_format packages defaults
             True w of
        (Inl e, w') \<Rightarrow> (Inl e, w')
      | (Inr result, w') \<Rightarrow>
          (Inr result,
           if result then log_msg Info ''All brew packages have been installed'' w'
           else w'))"

definition cask_install_format :: string where
  "cask_install_format = ''/opt/homebrew/bin/brew install --cask {pkg}''"

definition cask_check_format :: string where
  "cask_check_format =
     ''test -d /opt/homebrew/Caskroom/{pkg_name} ''
       @ ''|| /opt/homebrew/bin/brew ls --cask --versions {pkg_name}''"

definition cask ::
  "shell \<Rightarrow> string \<Rightarrow> string list \<Rightarrow> options \<Rightarrow> world \<Rightarrow> (error + bool) \<times> world" where
  "cask sh base packages defaults w =
     (case install_loop sh base cask_install_format cask_check_format packages defaults
             True w of
        (Inl e, w') \<Rightarrow> (Inl e, w')
      | (Inr result, w') \<Rightarrow>
          (Inr result,
           if result then log_msg Info ''All cask packages have been installed'' w'
           else w'))"

fun tap_loop ::
  "shell \<Rightarrow> string \<Rightarrow> string list \<Rightarrow> options \<Rightarrow> bool \<Rightarrow> world \<Rightarrow> bool \<times> world" where
  "tap_loop sh base [] defaults result w = (result, w)"
| "tap_loop sh base (t # tap_list) defaults result w =
     (let w1 = log_msg Info (''Tapping '' @ t) w;
          command = ''brew tap '' @ t
      in case invoke_shell_command sh base command defaults w1 of
           (cmd_result, w2) \<Rightarrow>
             if cmd_result \<noteq> 0 then
               tap_loop sh base tap_list defaults False
                 (log_msg Warning (''Failed to tap ['' @ t @ '']'') w2)
             else tap_loop sh base tap_list defaults result w2)"

definition tap :: "shell \<Rightarrow> string \<Rightarrow> string list \<Rightarrow> options \<Rightarrow> world \<Rightarrow> bool \<times> world" where
  "tap sh base tap_list defaults w = tap_loop sh base tap_list defaults True w"

fun brewfile_loop ::
  "shell \<Rightarrow> string \<Rightarrow> string list \<Rightarrow> options \<Rightarrow> bool \<Rightarrow> world \<Rightarrow> bool \<times> world" where
  "brewfile_loop sh base [] defaults result w = (result, w)"
| "brewfile_loop sh base (file # brew_files) defaults result w =
     (let w1 = log_msg Info (''Installing from file '' @ file) w;
          command = ''/opt/homebrew/bin/brew bundle --verbose --file='' @ file
      in case invoke_shell_command sh base command defaults w1 of
           (r, w2) \<Rightarrow>
             if 0 \<noteq> r then
               brewfile_loop sh base brew_files defaults False
                 (log_msg Warning (''Failed to install file ['' @ file @ '']'') w2)
             else brewfile_loop sh base brew_files defaults result w2)"

definition brewfile ::
  "shell \<Rightarrow> string \<Rightarrow> string list \<Rightarrow> options \<Rightarrow> world \<Rightarrow> bool \<times> world" where
  "brewfile sh base brew_files defaults w = brewfile_loop sh base brew_files defaults True w"

definition install_brew_command :: string where
  "install_brew_command =
     (let link = ''https://raw.githubusercontent.com/Homebrew/install/HEAD/install.sh''
      in ''/bin/bash -c '' @ [CHR 0x22] @ ''$(curl -fsSL '' @ link @ '')'' @ [CHR 0x22])"

definition install_brew ::
  "shell \<Rightarrow> string \<Rightarrow> bool \<Rightarrow> options \<Rightarrow> world \<Rightarrow> (error + bool) \<times> world" where
  "install_brew sh base val defaults w =
     (if \<not> val then
        (Inr False,
         log_msg Error ''Why would you even put `install-brew: false` in there?'' w)
      else
        install sh base install_brew_command ''command -v /opt/homebrew/bin/brew'' ''brew''
          defaults w)"

text \<open>The built-in defaults of \<^verbatim>\<open>__init__\<close>, by directive.\<close>

definition local_defaults :: "string \<Rightarrow> options option" where
  "local_defaults directive =
     (if directive = ''brew'' then Some \<lparr>stdin = False, stdout = False, stderr = False\<rparr>
      else if directive = ''cask'' then Some \<lparr>stdin = False, stdout = False, stderr = False\<rparr>
      else if directive = ''brewfile'' then Some \<lparr>stdin = True, stdout = True, stderr = True\<rparr>
      else if directive = ''install-brew''
        then Some \<lparr>stdin = True, stdout = True, stderr = True\<rparr>
      else if directive = ''tap'' then Some \<lparr>stdin = False, stdout = False, stderr = False\<rparr>
      else None)"

section \<open>Reference descriptions used in the statements\<close>









text \<open>Two parts of the pattern: \<^verbatim>\<open>(?: .+)?\<close> and \<^verbatim>\<open>(.+?)(?: .+)?$\<close>.\<close>

abbreviation "flags_re \<equiv> OptGreedy (Cat (One (Lit CHR '' '')) (PlusGreedy AnyChar))"
abbreviation "name_to_end_re \<equiv> Cat (Group 1 (PlusLazy AnyChar)) (Cat flags_re EOL)"

section \<open>Single targets\<close>

lemma spawns_append [simp]: "spawns (w @ w') = spawns w @ spawns w'"
  by (induction w rule: spawns.induct) simp_all

text \<open>The templates of the plugin format without an exception, whatever is substituted.\<close>

lemma brew_formats_total:
  "py_format brew_check_format ''pkg_name'' v
     = Some (''test -d /opt/homebrew/Cellar/'' @ v
             @ '' || /opt/homebrew/bin/brew ls --versions '' @ v)"
  "py_format brew_install_format ''pkg'' v = Some (''/opt/homebrew/bin/brew install '' @ v)"
  by (simp_all add: brew_check_format_def brew_install_format_def)

lemma cask_formats_total:
  "py_format cask_check_format ''pkg_name'' v
     = Some (''test -d /opt/homebrew/Caskroom/'' @ v
             @ '' || /opt/homebrew/bin/brew ls --cask --versions '' @ v)"
  "py_format cask_install_format ''pkg'' v
     = Some (''/opt/homebrew/bin/brew install --cask '' @ v)"
  by (simp_all add: cask_check_format_def cask_install_format_def)

lemma install_brew_formats_total:
  "py_format ''command -v /opt/homebrew/bin/brew'' ''pkg_name'' v
     = Some ''command -v /opt/homebrew/bin/brew''"
  "py_format install_brew_command ''pkg'' v = Some install_brew_command"
  by (simp_all add: install_brew_command_def)

text \<open>Names the pattern extracts from a few targets, by running the matcher.\<close>

lemma package_name_samples:
  "package_name ''wget'' = Some ''wget''"
  "package_name ''a'' = Some ''a''"
  "package_name ''b'' = Some ''b''"
  "package_name ''c'' = Some ''c''"
  "package_name ''brew'' = Some ''brew''"
  "package_name ''d12frosted/emacs-plus/emacs-plus --HEAD'' = Some ''emacs-plus''"
  by (simp_all add: package_name_def re_search_def name_re_def group_str_def)

text \<open>
  C5. For the empty target \<^verbatim>\<open>_install\<close> returns false at once: it logs one error and spawns
  no process, neither the check nor the install command.
\<close>

theorem install_blank_target:
  "install sh base install_format check_installed_format [] defaults w
     = (Inr False, w @ [Logged Error ''Cannot process blank package name''])
   \<and> spawns (snd (install sh base install_format check_installed_format [] defaults w))
     = spawns w"
  by (simp add: install_def log_msg_def)

text \<open>
  C1. For a non-empty target that the pattern accepts: when the check command, with the
  extracted name substituted, exits with 0, \<^verbatim>\<open>_install\<close> returns true, and the only process
  it has spawned is the check; the install command is not run.
\<close>

theorem install_present_short_circuits:
  assumes "pkg \<noteq> []"
    and "package_name pkg = Some name"
    and "py_format check_installed_format ''pkg_name'' name = Some check_cmd"
    and "sh (spawns w) (check_args base check_cmd) = 0"
  shows "install sh base install_format check_installed_format pkg defaults w
           = (Inr True,
              w @ [Spawned (check_args base check_cmd),
                   Logged Debug (pkg @ '' already installed'')])
         \<and> spawns (snd (install sh base install_format check_installed_format pkg defaults w))
           = spawns w @ [check_args base check_cmd]"
  using assms by (simp add: install_def subprocess_call_def log_msg_def)

theorem install_present_short_circuits_witness:
  "package_name ''d12frosted/emacs-plus/emacs-plus --HEAD'' = Some ''emacs-plus''
   \<and> install (\<lambda>h p. 0) ''/dotfiles'' brew_install_format brew_check_format
        ''d12frosted/emacs-plus/emacs-plus --HEAD''
        \<lparr>stdin = False, stdout = False, stderr = False\<rparr> []
     = (Inr True,
        [Spawned (check_args ''/dotfiles''
           (''test -d /opt/homebrew/Cellar/emacs-plus ''
              @ ''|| /opt/homebrew/bin/brew ls --versions emacs-plus'')),
         Logged Debug ''d12frosted/emacs-plus/emacs-plus --HEAD already installed''])"
  using install_present_short_circuits
    [where pkg = "''d12frosted/emacs-plus/emacs-plus --HEAD''" and name = "''emacs-plus''"
       and check_installed_format = brew_check_format
       and check_cmd = "''test -d /opt/homebrew/Cellar/emacs-plus ''
              @ ''|| /opt/homebrew/bin/brew ls --versions emacs-plus''"
       and sh = "\<lambda>h p. 0" and w = "[]" and base = "''/dotfiles''"
       and install_format = brew_install_format
       and defaults = "\<lparr>stdin = False, stdout = False, stderr = False\<rparr>"]
  by (simp add: package_name_samples brew_formats_total)

text \<open>
  C2. For a non-empty target that the pattern accepts: when the check command exits with a
  code other than 0, \<^verbatim>\<open>_install\<close> runs the install command with the whole target
  substituted, under the caller's options, and returns true exactly when that command exits
  with 0; when it does not, a warning is logged and the result is false.
\<close>

theorem install_absent_runs_install:
  assumes "pkg \<noteq> []"
    and "package_name pkg = Some name"
    and "py_format check_installed_format ''pkg_name'' name = Some check_cmd"
    and "sh (spawns w) (check_args base check_cmd) \<noteq> 0"
    and "py_format install_format ''pkg'' pkg = Some install_cmd"
  shows "let rc = sh (spawns w @ [check_args base check_cmd])
                    (popen_args base install_cmd defaults)
         in install sh base install_format check_installed_format pkg defaults w
              = (Inr (rc = 0),
                 w @ [Spawned (check_args base check_cmd),
                      Logged Info (''Installing '' @ pkg),
                      Spawned (popen_args base install_cmd defaults)]
                   @ (if rc = 0 then [] else [Logged Warning ''Failed to install [{pkg}]'']))"
  using assms
  by (simp add: install_def subprocess_call_def invoke_shell_command_def log_msg_def Let_def)

theorem install_absent_runs_install_witness:
  "install (\<lambda>h p. 1) ''/dotfiles'' brew_install_format brew_check_format ''wget''
     \<lparr>stdin = False, stdout = True, stderr = False\<rparr> []
     = (Inr False,
        [Spawned (check_args ''/dotfiles''
           ''test -d /opt/homebrew/Cellar/wget || /opt/homebrew/bin/brew ls --versions wget''),
         Logged Info ''Installing wget'',
         Spawned \<lparr>cmd = ''/opt/homebrew/bin/brew install wget'', cwd = ''/dotfiles'',
                  stdin_arg = DevNullFile, stdout_arg = PyTrue, stderr_arg = DevNullFile\<rparr>,
         Logged Warning ''Failed to install [{pkg}]''])
   \<and> install (\<lambda>h p. if h = [] then 1 else 0) ''/dotfiles'' brew_install_format
        brew_check_format ''wget'' \<lparr>stdin = False, stdout = True, stderr = False\<rparr> []
     = (Inr True,
        [Spawned (check_args ''/dotfiles''
           ''test -d /opt/homebrew/Cellar/wget || /opt/homebrew/bin/brew ls --versions wget''),
         Logged Info ''Installing wget'',
         Spawned \<lparr>cmd = ''/opt/homebrew/bin/brew install wget'', cwd = ''/dotfiles'',
                  stdin_arg = DevNullFile, stdout_arg = PyTrue, stderr_arg = DevNullFile\<rparr>])"
  using install_absent_runs_install
    [where pkg = "''wget''" and name = "''wget''"
       and check_installed_format = brew_check_format
       and check_cmd =
         "''test -d /opt/homebrew/Cellar/wget || /opt/homebrew/bin/brew ls --versions wget''"
       and sh = "\<lambda>h p. 1" and w = "[]" and base = "''/dotfiles''"
       and install_format = brew_install_format
       and install_cmd = "''/opt/homebrew/bin/brew install wget''"
       and defaults = "\<lparr>stdin = False, stdout = True, stderr = False\<rparr>"]
    install_absent_runs_install
    [where pkg = "''wget''" and name = "''wget''"
       and check_installed_format = brew_check_format
       and check_cmd =
         "''test -d /opt/homebrew/Cellar/wget || /opt/homebrew/bin/brew ls --versions wget''"
       and sh = "\<lambda>h p. if h = [] then 1 else 0" and w = "[]" and base = "''/dotfiles''"
       and install_format = brew_install_format
       and install_cmd = "''/opt/homebrew/bin/brew install wget''"
       and defaults = "\<lparr>stdin = False, stdout = True, stderr = False\<rparr>"]
  by (simp add: package_name_samples brew_formats_total popen_args_def)

text \<open>
  C6. Whatever the target and the options of the caller: when \<^verbatim>\<open>_install\<close> reaches the check,
  the check is the first process it spawns and its three standard streams are the null
  device. The spawned check does not mention the options, so it is the same for any two
  option records. When the check is not reached (an empty target, a target the pattern
  rejects) no process is spawned at all.
\<close>

theorem check_step_ignores_options:
  "(pkg \<noteq> [] \<longrightarrow> package_name pkg = Some name
      \<longrightarrow> py_format check_installed_format ''pkg_name'' name = Some check_cmd
      \<longrightarrow> (\<exists>rest1 rest2.
            snd (install sh base install_format check_installed_format pkg defaults w)
              = w @ Spawned \<lparr>cmd = check_cmd, cwd = base, stdin_arg = DevNullFile,
                            stdout_arg = DevNullFile, stderr_arg = DevNullFile\<rparr> # rest1
          \<and> snd (install sh base install_format check_installed_format pkg others w)
              = w @ Spawned \<lparr>cmd = check_cmd, cwd = base, stdin_arg = DevNullFile,
                            stdout_arg = DevNullFile, stderr_arg = DevNullFile\<rparr> # rest2))
   \<and> (pkg = [] \<or> package_name pkg = None
      \<longrightarrow> spawns (snd (install sh base install_format check_installed_format pkg defaults w))
            = spawns w)
   \<and> popen_stream DevNullFile = NullDevice"
proof (intro conjI impI)
  assume "pkg \<noteq> []" "package_name pkg = Some name"
    "py_format check_installed_format ''pkg_name'' name = Some check_cmd"
  then show "\<exists>rest1 rest2.
            snd (install sh base install_format check_installed_format pkg defaults w)
              = w @ Spawned \<lparr>cmd = check_cmd, cwd = base, stdin_arg = DevNullFile,
                            stdout_arg = DevNullFile, stderr_arg = DevNullFile\<rparr> # rest1
          \<and> snd (install sh base install_format check_installed_format pkg others w)
              = w @ Spawned \<lparr>cmd = check_cmd, cwd = base, stdin_arg = DevNullFile,
                            stdout_arg = DevNullFile, stderr_arg = DevNullFile\<rparr> # rest2"
    by (simp add: install_def subprocess_call_def invoke_shell_command_def log_msg_def
          check_args_def Let_def split: option.split)
next
  assume "pkg = [] \<or> package_name pkg = None"
  then show "spawns (snd (install sh base install_format check_installed_format pkg defaults w))
            = spawns w"
    by (auto simp add: install_def log_msg_def)
next
  show "popen_stream DevNullFile = NullDevice" by simp
qed

theorem check_step_ignores_options_witness:
  "\<exists>rest1 rest2.
     snd (install (\<lambda>h p. 1) ''/dotfiles'' cask_install_format cask_check_format ''wget''
            \<lparr>stdin = True, stdout = True, stderr = True\<rparr> [])
       = Spawned \<lparr>cmd = ''test -d /opt/homebrew/Caskroom/wget ''
                         @ ''|| /opt/homebrew/bin/brew ls --cask --versions wget'',
                  cwd = ''/dotfiles'', stdin_arg = DevNullFile,
                  stdout_arg = DevNullFile, stderr_arg = DevNullFile\<rparr> # rest1
   \<and> snd (install (\<lambda>h p. 1) ''/dotfiles'' cask_install_format cask_check_format ''wget''
            \<lparr>stdin = False, stdout = False, stderr = False\<rparr> [])
       = Spawned \<lparr>cmd = ''test -d /opt/homebrew/Caskroom/wget ''
                         @ ''|| /opt/homebrew/bin/brew ls --cask --versions wget'',
                  cwd = ''/dotfiles'', stdin_arg = DevNullFile,
                  stdout_arg = DevNullFile, stderr_arg = DevNullFile\<rparr> # rest2"
  using check_step_ignores_options
    [where pkg = "''wget''" and name = "''wget''"
       and check_installed_format = cask_check_format
       and check_cmd = "''test -d /opt/homebrew/Caskroom/wget ''
                         @ ''|| /opt/homebrew/bin/brew ls --cask --versions wget''"
       and sh = "\<lambda>h p. 1" and w = "[]" and base = "''/dotfiles''"
       and install_format = cask_install_format
       and defaults = "\<lparr>stdin = True, stdout = True, stderr = True\<rparr>"
       and others = "\<lparr>stdin = False, stdout = False, stderr = False\<rparr>"]
  by (simp add: package_name_samples cask_formats_total)

text \<open>
  C8. With its toggle false, \<^verbatim>\<open>_install_brew\<close> returns false: it logs one error and spawns
  no process.
\<close>

theorem install_brew_disabled:
  "install_brew sh base False defaults w
     = (Inr False,
        w @ [Logged Error ''Why would you even put `install-brew: false` in there?''])
   \<and> spawns (snd (install_brew sh base False defaults w)) = spawns w"
  by (simp add: install_brew_def log_msg_def)

section \<open>Batches\<close>









section \<open>Standard streams of the install step\<close>

text \<open>
  What \<^verbatim>\<open>_invoke_shell_command\<close> passes for each stream depends on the switch of that
  stream alone: \<^verbatim>\<open>True\<close> for a true switch, the file on the null device for a false one. A
  false switch therefore discards the stream, and a true switch connects the stream of the
  child to descriptor 1 of the parent, whichever stream it is.
\<close>

lemma invoke_shell_command_streams:
  "snd (invoke_shell_command sh base command defaults w)
     = w @ [Spawned (popen_args base command defaults)]"
  "popen_stream (stdin_arg (popen_args base command defaults))
     = (if stdin defaults then ParentFd 1 else NullDevice)"
  "popen_stream (stdout_arg (popen_args base command defaults))
     = (if stdout defaults then ParentFd 1 else NullDevice)"
  "popen_stream (stderr_arg (popen_args base command defaults))
     = (if stderr defaults then ParentFd 1 else NullDevice)"
  by (simp_all add: invoke_shell_command_def subprocess_call_def popen_args_def)

text \<open>
  C7. The claim is that a true switch lets the child inherit the stream of the same name
  from the parent: descriptor 0 for stdin, 1 for stdout, 2 for stderr. Under the built-in
  options of \<^verbatim>\<open>install-brew\<close> (all three switches true), with the manager absent, the install
  process is spawned with \<^verbatim>\<open>True\<close> for every stream, and \<^verbatim>\<open>subprocess\<close> reads \<^verbatim>\<open>True\<close> as
  descriptor 1: the standard input and the standard error of the child are both the
  standard output of the parent, not descriptors 0 and 2.
\<close>

theorem install_brew_streams_are_descriptor_1:
  "local_defaults ''install-brew'' = Some \<lparr>stdin = True, stdout = True, stderr = True\<rparr>
   \<and> install_brew (\<lambda>h p. 1) ''/dotfiles'' True
        \<lparr>stdin = True, stdout = True, stderr = True\<rparr> []
     = (Inr False,
        [Spawned (check_args ''/dotfiles'' ''command -v /opt/homebrew/bin/brew''),
         Logged Info ''Installing brew'',
         Spawned \<lparr>cmd = install_brew_command, cwd = ''/dotfiles'', stdin_arg = PyTrue,
                  stdout_arg = PyTrue, stderr_arg = PyTrue\<rparr>,
         Logged Warning ''Failed to install [{pkg}]''])
   \<and> popen_stream PyTrue = ParentFd 1
   \<and> popen_stream PyTrue \<noteq> ParentFd 0
   \<and> popen_stream PyTrue \<noteq> ParentFd 2"
  by (simp add: local_defaults_def install_brew_def install_def package_name_samples
        install_brew_formats_total subprocess_call_def invoke_shell_command_def
        popen_args_def log_msg_def Let_def)

section \<open>Name extraction\<close>
































end
